theory Spec2Isabelle
  imports Main "HOL-Library.Word"
begin

section \<open>The C++ server stub: \<^verbatim>\<open>server-cpp/src/main.cpp\<close>\<close>

text \<open>
  The program is two functions, \<^verbatim>\<open>listen\<close> and \<^verbatim>\<open>main\<close>. Its effects are
  writes to \<^verbatim>\<open>std::cout\<close> and the exception that \<^verbatim>\<open>std::stoi\<close> may throw.
  Both are explicit here: a computation takes the world and returns either an exception
  or a value, together with the world it leaves behind.
\<close>

subsection \<open>Values, exceptions and the world\<close>

text \<open>The C++ \<^verbatim>\<open>int\<close>: 32 bits, two's complement, read by \<^term>\<open>sint\<close>.\<close>

type_synonym cint = "32 word"

text \<open>The two exceptions of \<^verbatim>\<open>std::stoi\<close>; the program throws nothing else.\<close>

datatype exn = Invalid_argument | Out_of_range

text \<open>
  The world as the program sees it: the characters written to standard output so far.
  The record is extensible, and every operation below is defined on all extensions, so
  whatever else a world holds is carried through untouched.
\<close>

record world =
  stdout :: string

type_synonym ('a, 'w) prog = "'w \<Rightarrow> (exn + 'a) \<times> 'w"

definition prog_return :: "'a \<Rightarrow> ('a, 'w) prog" where
  "prog_return x = (\<lambda>w. (Inr x, w))"

definition prog_throw :: "exn \<Rightarrow> ('a, 'w) prog" where
  "prog_throw e = (\<lambda>w. (Inl e, w))"

text \<open>Sequencing: an exception of the first part skips the rest.\<close>

definition prog_bind :: "('a, 'w) prog \<Rightarrow> ('a \<Rightarrow> ('b, 'w) prog) \<Rightarrow> ('b, 'w) prog" where
  "prog_bind m f = (\<lambda>w. case m w of (Inl e, w') \<Rightarrow> (Inl e, w') | (Inr x, w') \<Rightarrow> f x w')"

text \<open>A value or an exception computed without touching the world.\<close>

definition prog_of_result :: "exn + 'a \<Rightarrow> ('a, 'w) prog" where
  "prog_of_result r = (case r of Inl e \<Rightarrow> prog_throw e | Inr x \<Rightarrow> prog_return x)"

subsection \<open>Stream insertion into \<^verbatim>\<open>std::cout\<close>\<close>

text \<open>
  \<^verbatim>\<open>operator<<\<close> for an \<^verbatim>\<open>int\<close> writes the decimal digits, most significant first,
  with a leading minus sign for a negative value (default flags, classic locale).
\<close>

fun decimal :: "nat \<Rightarrow> string" where
  "decimal n =
     (if n < 10 then [''0123456789'' ! n]
      else decimal (n div 10) @ [''0123456789'' ! (n mod 10)])"

declare decimal.simps [simp del]

definition show_int :: "int \<Rightarrow> string" where
  "show_int i = (if i < 0 then CHR ''-'' # decimal (nat (- i)) else decimal (nat i))"

definition cout_string :: "string \<Rightarrow> (unit, 'a world_scheme) prog" where
  "cout_string s = (\<lambda>w. (Inr (), w\<lparr>stdout := stdout w @ s\<rparr>))"

definition cout_int :: "cint \<Rightarrow> (unit, 'a world_scheme) prog" where
  "cout_int n = cout_string (show_int (sint n))"

subsection \<open>\<^verbatim>\<open>std::stoi\<close>\<close>

text \<open>
  \<^verbatim>\<open>std::stoi(str)\<close> belongs to the C++ standard library, not to the repository; it is
  modelled after its specification (ISO C++ [string.conversions], through C's
  \<^verbatim>\<open>strtol\<close> with base 10). \<^verbatim>\<open>strtol\<close> skips leading white space, reads an optional
  sign and then the longest run of decimal digits, and ignores what follows.
  \<^verbatim>\<open>stoi\<close> throws \<^verbatim>\<open>std::invalid_argument\<close> when no digit was converted and
  \<^verbatim>\<open>std::out_of_range\<close> when \<^verbatim>\<open>strtol\<close> reports a range error or the value does not
  fit an \<^verbatim>\<open>int\<close>. A \<^verbatim>\<open>long\<close> is at least as wide as an \<^verbatim>\<open>int\<close>, so both cases are
  the one test of the mathematical value against the bounds of \<^verbatim>\<open>int\<close>.
\<close>

definition isspace :: "char \<Rightarrow> bool" where
  "isspace c = (c \<in> set [CHR '' '', CHR 0x09, CHR 0x0A, CHR 0x0B, CHR 0x0C, CHR 0x0D])"

definition isdigit :: "char \<Rightarrow> bool" where
  "isdigit c = (c \<in> set ''0123456789'')"

definition digit_value :: "char \<Rightarrow> int" where
  "digit_value c = int (of_char c) - 48"

definition digits_value :: "string \<Rightarrow> int" where
  "digits_value ds = foldl (\<lambda>acc c. 10 * acc + digit_value c) 0 ds"

definition strtol_value :: "string \<Rightarrow> int option" where
  "strtol_value s =
     (let s1 = dropWhile isspace s;
          negative = (case s1 of c # _ \<Rightarrow> c = CHR ''-'' | [] \<Rightarrow> False);
          s2 = (case s1 of c # r \<Rightarrow> if c = CHR ''-'' \<or> c = CHR ''+'' then r else s1 | [] \<Rightarrow> s1);
          ds = takeWhile isdigit s2
      in if ds = [] then None
         else Some (if negative then - digits_value ds else digits_value ds))"

definition INT_MIN :: int where
  "INT_MIN = - (2 ^ 31)"

definition INT_MAX :: int where
  "INT_MAX = 2 ^ 31 - 1"

definition stoi :: "string \<Rightarrow> exn + cint" where
  "stoi str =
     (case strtol_value str of
        None \<Rightarrow> Inl Invalid_argument
      | Some v \<Rightarrow> if v < INT_MIN \<or> INT_MAX < v then Inl Out_of_range else Inr (word_of_int v))"

subsection \<open>The program\<close>

text \<open>
  \<^verbatim>\<open>void listen(std::string host, int port)\<close>: one chained insertion into
  \<^verbatim>\<open>std::cout\<close>, and the comment \<^verbatim>\<open>// TODO actually listen\<close>.
\<close>

definition listen :: "string \<Rightarrow> cint \<Rightarrow> (unit, 'a world_scheme) prog" where
  "listen host port =
     prog_bind (cout_string ''Listening on '') (\<lambda>_.
     prog_bind (cout_string host) (\<lambda>_.
     prog_bind (cout_string '':'') (\<lambda>_.
     prog_bind (cout_int port) (\<lambda>_.
     cout_string [CHR 0x0A]))))"

text \<open>
  \<^verbatim>\<open>int main(int argc, char** argv)\<close>. The argument vector is the list of its
  \<^verbatim>\<open>argc\<close> strings, \<^verbatim>\<open>argv[0]\<close> first, so \<^verbatim>\<open>argc\<close> is its length and the two
  reads \<^verbatim>\<open>argv[1]\<close> and \<^verbatim>\<open>argv[2]\<close> are guarded by the source's own tests.
  Nothing catches an exception that leaves \<^verbatim>\<open>main\<close>: the C++ runtime calls
  \<^verbatim>\<open>std::terminate\<close> and the process ends abnormally, with no exit code from
  \<^verbatim>\<open>main\<close>. That outcome is the left injection here.
\<close>

definition main :: "string list \<Rightarrow> (cint, 'a world_scheme) prog" where
  "main argv =
     (let argc = length argv;
          host = ''127.0.0.1'';
          port = 8080;
          host = (if argc \<ge> 2 then argv ! 1 else host)
      in prog_bind (if argc \<ge> 3 then prog_of_result (stoi (argv ! 2)) else prog_return port) (\<lambda>port.
         prog_bind (listen host port) (\<lambda>_.
         prog_return 0)))"

subsection \<open>The Listener of the specification\<close>

text \<open>
  The definitions of this subsection follow the words of the specification (section 4.1
  and section 3), not the source: the repository has no \<^verbatim>\<open>start\<close>, no configuration
  record, no handle and no bind. They exist to compare what the specification asks of
  \<^verbatim>\<open>start\<close> with what \<^verbatim>\<open>listen\<close> and \<^verbatim>\<open>main\<close> do.

  \<^verbatim>\<open>start\<close> fails with \<^verbatim>\<open>AddressInUse\<close> if the port is already bound and
  \<^verbatim>\<open>reuse_address\<close> is false, with \<^verbatim>\<open>InvalidAddress\<close> if the host does not resolve,
  and with \<^verbatim>\<open>PermissionDenied\<close> for a privileged port without sufficient rights; on
  success the accept loop is in state Accepting and a handle is returned. Which ports are
  bound, which hosts resolve, which ports are privileged and whether the process has the
  rights are facts of the network, which extends the world of the program.
\<close>

datatype BindError = AddressInUse | InvalidAddress | PermissionDenied

record ListenerConfig =
  cfg_host :: string
  cfg_port :: int
  backlog :: int
  reuse_address :: bool

datatype ListenerState = Starting | Accepting | Stopping | Stopped

datatype ListenerHandle = ListenerHandle string int ListenerState

record network = world +
  already_bound :: "string \<Rightarrow> int \<Rightarrow> bool"
  resolves :: "string \<Rightarrow> bool"
  privileged :: "int \<Rightarrow> bool"
  sufficient_rights :: bool

definition start_spec :: "ListenerConfig \<Rightarrow> network \<Rightarrow> BindError + ListenerHandle" where
  "start_spec config net =
     (if already_bound net (cfg_host config) (cfg_port config) \<and> reuse_address config = False
        then Inl AddressInUse
      else if resolves net (cfg_host config) = False
        then Inl InvalidAddress
      else if privileged net (cfg_port config) \<and> sufficient_rights net = False
        then Inl PermissionDenied
      else Inr (ListenerHandle (cfg_host config) (cfg_port config) Accepting))"

text \<open>
  The default address of the stub as a configuration, and a network in which that
  address is taken: every host resolves, the ports below 1024 are privileged, the
  process has no special rights, and nothing has been printed yet.
\<close>

definition default_config :: ListenerConfig where
  "default_config =
     \<lparr>cfg_host = ''127.0.0.1'', cfg_port = 8080, backlog = 1, reuse_address = False\<rparr>"

definition network_8080_taken :: network where
  "network_8080_taken =
     \<lparr>stdout = [],
      already_bound = (\<lambda>h p. h = ''127.0.0.1'' \<and> p = 8080),
      resolves = (\<lambda>h. True),
      privileged = (\<lambda>p. p < 1024),
      sufficient_rights = False\<rparr>"

section \<open>What the program does\<close>

subsection \<open>Running \<^verbatim>\<open>listen\<close> and \<^verbatim>\<open>main\<close>\<close>

lemma sint_cint_of_int:
  "INT_MIN \<le> v \<Longrightarrow> v \<le> INT_MAX \<Longrightarrow> sint (word_of_int v :: cint) = v"
  by (simp add: INT_MIN_def INT_MAX_def signed_of_int signed_take_bit_int_eq_self)

lemma listen_run:
  "listen host port w =
     (Inr (), w\<lparr>stdout := stdout w @ ''Listening on '' @ host @ '':''
        @ show_int (sint port) @ [CHR 0x0A]\<rparr>)"
  by (simp add: listen_def prog_bind_def cout_string_def cout_int_def)

lemma main_run:
  "main argv w =
     (case (if 3 \<le> length argv then stoi (argv ! 2) else Inr 8080) of
        Inl e \<Rightarrow> (Inl e, w)
      | Inr port \<Rightarrow>
          (Inr 0, w\<lparr>stdout := stdout w @ ''Listening on ''
             @ (if 2 \<le> length argv then argv ! 1 else ''127.0.0.1'')
             @ '':'' @ show_int (sint port) @ [CHR 0x0A]\<rparr>))"
  by (simp add: main_def Let_def prog_bind_def prog_of_result_def prog_return_def
      prog_throw_def listen_run split: sum.splits)

text \<open>The four shapes of the argument vector.\<close>

lemma main_argc0:
  "main [] w = (Inr 0, w\<lparr>stdout := stdout w @ ''Listening on 127.0.0.1:8080'' @ [CHR 0x0A]\<rparr>)"
  by (simp add: main_run show_int_def decimal.simps)

lemma main_argc1:
  "main [a0] w = (Inr 0, w\<lparr>stdout := stdout w @ ''Listening on 127.0.0.1:8080'' @ [CHR 0x0A]\<rparr>)"
  by (simp add: main_run show_int_def decimal.simps)

lemma main_argc2:
  "main [a0, h] w =
     (Inr 0, w\<lparr>stdout := stdout w @ ''Listening on '' @ h @ '':8080'' @ [CHR 0x0A]\<rparr>)"
  by (simp add: main_run show_int_def decimal.simps)

lemma main_argc3:
  "main (a0 # h # p # rest) w =
     (case stoi p of
        Inl e \<Rightarrow> (Inl e, w)
      | Inr port \<Rightarrow>
          (Inr 0, w\<lparr>stdout := stdout w @ ''Listening on '' @ h @ '':''
             @ show_int (sint port) @ [CHR 0x0A]\<rparr>))"
  by (simp add: main_run split: sum.splits)

text \<open>Only \<^verbatim>\<open>argv[1]\<close> and \<^verbatim>\<open>argv[2]\<close> are ever read.\<close>

lemma main_first_three: "main argv w = main (a # take 2 (tl argv)) w"
proof (cases argv)
  case Nil
  then show ?thesis by (simp add: main_argc0 main_argc1)
next
  case (Cons a0 args)
  note argv = this
  show ?thesis
  proof (cases args)
    case Nil
    with argv show ?thesis by (simp add: main_argc1)
  next
    case (Cons h more_args)
    note args = this
    show ?thesis
    proof (cases more_args)
      case Nil
      with argv args show ?thesis by (simp add: main_argc2)
    next
      case (Cons p rest)
      with argv args show ?thesis by (simp add: main_argc3)
    qed
  qed
qed

subsection \<open>\<^verbatim>\<open>std::stoi\<close> and the printed number on some inputs\<close>

lemmas stoi_eval =
  stoi_def strtol_value_def isspace_def isdigit_def digits_value_def digit_value_def
  INT_MIN_def INT_MAX_def

lemma stoi_abc: "stoi ''abc'' = Inl Invalid_argument"
  by (simp add: stoi_eval)


lemma strtol_value_2147483648: "strtol_value ''2147483648'' = Some 2147483648"
  by (simp add: stoi_eval)

lemma stoi_8000: "stoi ''8000'' = Inr 8000"
  by (simp add: stoi_eval)

lemma stoi_70000: "stoi ''70000'' = Inr 70000"
  by (simp add: stoi_eval)

lemma stoi_minus_1: "stoi ''-1'' = Inr (- 1)"
  by (simp add: stoi_eval)

lemma strtol_value_minus_1: "strtol_value ''-1'' = Some (- 1)"
  by (simp add: stoi_eval)

lemma show_int_8000: "show_int 8000 = ''8000''"
  by (simp add: show_int_def decimal.simps)

lemma show_int_8080: "show_int 8080 = ''8080''"
  by (simp add: show_int_def decimal.simps)

lemma show_int_70000: "show_int 70000 = ''70000''"
  by (simp add: show_int_def decimal.simps)

lemma show_int_minus_1: "show_int (- 1) = ''-1''"
  by (simp add: show_int_def decimal.simps)



section \<open>The claims\<close>

subsection \<open>C1: what a run can be observed to do\<close>

text \<open>
  Claim C1, as amended. For every invocation the program reads at most two optional
  command-line arguments, the host first and the port second. When the port argument is
  absent or \<^verbatim>\<open>std::stoi\<close> converts it, the program prints the single line
  \<^verbatim>\<open>Listening on <host>:<port>\<close> and returns 0; when \<^verbatim>\<open>std::stoi\<close> throws, it
  prints nothing and ends with the exception. Nothing else of the world changes: there
  is no networking, no protocol logic and no concurrency.
\<close>

theorem main_observable_behaviour:
  "main argv w =
     (case (if 3 \<le> length argv then stoi (argv ! 2) else Inr 8080) of
        Inl e \<Rightarrow> (Inl e, w)
      | Inr port \<Rightarrow>
          (Inr 0, w\<lparr>stdout := stdout w @ ''Listening on ''
             @ (if 2 \<le> length argv then argv ! 1 else ''127.0.0.1'')
             @ '':'' @ show_int (sint port) @ [CHR 0x0A]\<rparr>))"
  by (rule main_run)

text \<open>A run with a host, a port and two more arguments.\<close>

theorem main_observable_behaviour_witness:
  "main [''tatsoryk'', ''localhost'', ''8000'', ''x'', ''y''] \<lparr>stdout = []\<rparr> =
     (Inr 0, \<lparr>stdout = ''Listening on localhost:8000'' @ [CHR 0x0A]\<rparr>)"
  using main_observable_behaviour
    [of "[''tatsoryk'', ''localhost'', ''8000'', ''x'', ''y'']" "\<lparr>stdout = []\<rparr>"]
  by (simp add: stoi_8000 show_int_8000)

text \<open>
  The claim as it was stated promises a printed message on every invocation. With the port
  argument \<^verbatim>\<open>abc\<close> nothing is printed and \<^verbatim>\<open>main\<close> returns no exit code.
\<close>

theorem main_single_message_counterexample:
  "main [''tatsoryk'', ''localhost'', ''abc''] \<lparr>stdout = []\<rparr> =
     (Inl Invalid_argument, \<lparr>stdout = []\<rparr>)"
  by (simp add: main_argc3 stoi_abc)

subsection \<open>C2: defaults and overrides\<close>

text \<open>
  Claim C2. With no host argument the host is \<^verbatim>\<open>127.0.0.1\<close>, with no port argument
  the port is 8080; a first argument replaces the host, and the integer that
  \<^verbatim>\<open>std::stoi\<close> reads from a second argument replaces the port. The four shapes of the
  argument vector are: empty, the program name alone, one argument, two or more.
\<close>

theorem main_defaults_and_overrides:
  "main [] w =
     (Inr 0, w\<lparr>stdout := stdout w @ ''Listening on 127.0.0.1:8080'' @ [CHR 0x0A]\<rparr>)
   \<and> main [a0] w =
     (Inr 0, w\<lparr>stdout := stdout w @ ''Listening on 127.0.0.1:8080'' @ [CHR 0x0A]\<rparr>)
   \<and> main [a0, h] w =
     (Inr 0, w\<lparr>stdout := stdout w @ ''Listening on '' @ h @ '':8080'' @ [CHR 0x0A]\<rparr>)
   \<and> main (a0 # h # p # rest) w =
     (case stoi p of
        Inl e \<Rightarrow> (Inl e, w)
      | Inr port \<Rightarrow>
          (Inr 0, w\<lparr>stdout := stdout w @ ''Listening on '' @ h @ '':''
             @ show_int (sint port) @ [CHR 0x0A]\<rparr>))"
  by (simp only: main_argc0 main_argc1 main_argc2 main_argc3 simp_thms)

theorem main_defaults_and_overrides_witness:
  "main [''tatsoryk''] \<lparr>stdout = []\<rparr> =
     (Inr 0, \<lparr>stdout = ''Listening on 127.0.0.1:8080'' @ [CHR 0x0A]\<rparr>)
   \<and> main [''tatsoryk'', ''example.org''] \<lparr>stdout = []\<rparr> =
     (Inr 0, \<lparr>stdout = ''Listening on example.org:8080'' @ [CHR 0x0A]\<rparr>)
   \<and> main [''tatsoryk'', ''example.org'', ''8000''] \<lparr>stdout = []\<rparr> =
     (Inr 0, \<lparr>stdout = ''Listening on example.org:8000'' @ [CHR 0x0A]\<rparr>)"
  using main_defaults_and_overrides
    [of "\<lparr>stdout = []\<rparr>" "''tatsoryk''" "''example.org''" "''8000''" "[]"]
  by (simp add: stoi_8000 show_int_8000)

subsection \<open>C3: \<^verbatim>\<open>listen\<close> is a placeholder\<close>

text \<open>
  Claim C3. For every host and port, \<^verbatim>\<open>listen\<close> appends the line
  \<^verbatim>\<open>Listening on <host>:<port>\<close> to standard output and does nothing else: it returns
  no value (the unit), raises nothing, and leaves every other part of the world as it
  was, whatever that part says about the address. A bind cannot fail, because none is
  attempted.
\<close>

theorem listen_only_prints:
  "listen host port w =
     (Inr (), w\<lparr>stdout := stdout w @ ''Listening on '' @ host @ '':''
        @ show_int (sint port) @ [CHR 0x0A]\<rparr>)
   \<and> world.more (snd (listen host port w)) = world.more w"
  by (simp add: listen_run)

theorem listen_only_prints_witness:
  "listen ''localhost'' 8000 \<lparr>stdout = ''ready'' @ [CHR 0x0A]\<rparr> =
     (Inr (), \<lparr>stdout = ''ready'' @ [CHR 0x0A] @ ''Listening on localhost:8000'' @ [CHR 0x0A]\<rparr>)"
  using listen_only_prints [of "''localhost''" 8000 "\<lparr>stdout = ''ready'' @ [CHR 0x0A]\<rparr>"]
  by (simp add: show_int_8000)

subsection \<open>C4: a port argument that \<^verbatim>\<open>std::stoi\<close> rejects\<close>




subsection \<open>C5: the exit code\<close>

text \<open>
  Claim C5, as amended. Every run in which \<^verbatim>\<open>listen\<close> is reached exits with code 0,
  whatever the state of the address it names: \<^verbatim>\<open>listen\<close> always completes, and
  \<^verbatim>\<open>main\<close> returns 0 after it. No bind is attempted, so no bind failure is detected and
  \<^verbatim>\<open>main\<close> returns no other code; the only runs that do not return 0 are those that
  \<^verbatim>\<open>std::stoi\<close> ends with an exception.
\<close>

theorem main_exit_code:
  "fst (main argv w) =
     (if length argv < 3 then Inr 0
      else case stoi (argv ! 2) of Inl e \<Rightarrow> Inl e | Inr port \<Rightarrow> Inr 0)"
  by (simp add: main_run split: sum.splits)

theorem main_exit_code_witness:
  "fst (main [''tatsoryk'', ''localhost'', ''8000''] network_8080_taken) = Inr 0"
  using main_exit_code [of "[''tatsoryk'', ''localhost'', ''8000'']" network_8080_taken]
  by (simp add: stoi_8000)

text \<open>
  The claim as it was stated promises a non-zero exit code on bind failure. In a network
  where 127.0.0.1:8080 is already bound, the \<^verbatim>\<open>start\<close> of the specification fails with
  \<^verbatim>\<open>AddressInUse\<close>; the program, run on its defaults, prints that it listens and
  returns 0.
\<close>

theorem main_exit_code_bind_failure_counterexample:
  "start_spec default_config network_8080_taken = Inl AddressInUse
   \<and> main [''tatsoryk''] network_8080_taken =
     (Inr 0, network_8080_taken\<lparr>stdout := ''Listening on 127.0.0.1:8080'' @ [CHR 0x0A]\<rparr>)"
  by (simp add: start_spec_def default_config_def network_8080_taken_def main_argc1)

subsection \<open>C6: the range of the port\<close>

text \<open>
  Claim C6, as amended. Every port value the program accepts and uses is an integer in
  the range of \<^verbatim>\<open>int\<close>, from -2147483648 to 2147483647: when \<^verbatim>\<open>std::stoi\<close> reads the
  value \<open>v\<close> from the port argument, the program prints and uses exactly \<open>v\<close> if it lies
  in that range, and otherwise ends with \<^verbatim>\<open>std::out_of_range\<close> before the port is
  used. The range 0 to 65535 is not checked anywhere.
\<close>

theorem main_port_int_range:
  assumes "strtol_value p = Some v"
  shows "main (a0 # h # p # rest) w =
     (if INT_MIN \<le> v \<and> v \<le> INT_MAX
      then (Inr 0, w\<lparr>stdout := stdout w @ ''Listening on '' @ h @ '':''
              @ show_int v @ [CHR 0x0A]\<rparr>)
      else (Inl Out_of_range, w))"
proof (cases "INT_MIN \<le> v \<and> v \<le> INT_MAX")
  case True
  with assms have "stoi p = Inr (word_of_int v)"
    by (simp add: stoi_def not_less)
  with True show ?thesis
    by (simp add: main_argc3 sint_cint_of_int)
next
  case False
  with assms have "stoi p = Inl Out_of_range"
    by (auto simp add: stoi_def)
  with False show ?thesis
    by (simp add: main_argc3)
qed

theorem main_port_int_range_witness:
  "main [''tatsoryk'', ''localhost'', ''-1''] \<lparr>stdout = []\<rparr> =
     (Inr 0, \<lparr>stdout = ''Listening on localhost:-1'' @ [CHR 0x0A]\<rparr>)
   \<and> main [''tatsoryk'', ''localhost'', ''2147483648''] \<lparr>stdout = []\<rparr> =
     (Inl Out_of_range, \<lparr>stdout = []\<rparr>)"
  using
    main_port_int_range [OF strtol_value_minus_1,
      of "''tatsoryk''" "''localhost''" "[]" "\<lparr>stdout = []\<rparr>"]
    main_port_int_range [OF strtol_value_2147483648,
      of "''tatsoryk''" "''localhost''" "[]" "\<lparr>stdout = []\<rparr>"]
  by (simp add: INT_MIN_def INT_MAX_def show_int_minus_1)

text \<open>
  The claim as it was stated confines the ports in use to 0 .. 65535. The port argument
  70000 is accepted and used.
\<close>

theorem main_port_range_counterexample:
  "main [''tatsoryk'', ''localhost'', ''70000''] \<lparr>stdout = []\<rparr> =
     (Inr 0, \<lparr>stdout = ''Listening on localhost:70000'' @ [CHR 0x0A]\<rparr>)"
  by (simp add: main_argc3 stoi_70000 show_int_70000)

subsection \<open>C7: \<^verbatim>\<open>listen\<close> against the \<^verbatim>\<open>start\<close> of the specification\<close>

text \<open>
  Claim C7, as amended. \<^verbatim>\<open>listen(host, port)\<close> returns no result and never fails: in
  every state of the network, also where the port is already bound, the host does not
  resolve or the port is privileged, it returns normally having only printed
  \<^verbatim>\<open>Listening on <host>:<port>\<close>. It binds nothing, begins no accept loop and returns
  no handle; the network is as it was.
\<close>

theorem listen_never_fails:
  "listen (cfg_host config) (word_of_int (cfg_port config)) net =
     (Inr (), net\<lparr>stdout := stdout net @ ''Listening on '' @ cfg_host config @ '':''
        @ show_int (sint (word_of_int (cfg_port config) :: cint)) @ [CHR 0x0A]\<rparr>)
   \<and> already_bound (snd (listen (cfg_host config) (word_of_int (cfg_port config)) net))
       = already_bound net"
  by (simp add: listen_run)

theorem listen_never_fails_witness:
  "listen ''127.0.0.1'' 8080 network_8080_taken =
     (Inr (), network_8080_taken\<lparr>stdout := ''Listening on 127.0.0.1:8080'' @ [CHR 0x0A]\<rparr>)"
  using listen_never_fails [of default_config network_8080_taken]
  by (simp add: default_config_def network_8080_taken_def show_int_8080)

text \<open>
  The claim as it was stated has the operation fail with \<^verbatim>\<open>AddressInUse\<close> when the
  port is already bound and \<^verbatim>\<open>reuse_address\<close> is false. On such a network the
  \<^verbatim>\<open>start\<close> of the specification fails, and \<^verbatim>\<open>listen\<close> on the same address does not.
\<close>

theorem listen_bind_error_counterexample:
  "start_spec default_config network_8080_taken = Inl AddressInUse
   \<and> fst (listen (cfg_host default_config) (word_of_int (cfg_port default_config))
         network_8080_taken) = Inr ()"
  by (simp add: start_spec_def default_config_def network_8080_taken_def listen_run)

subsection \<open>C10: arguments beyond the second\<close>

text \<open>
  Claim C10. Arguments beyond the second are ignored: two runs whose argument vectors
  agree on \<^verbatim>\<open>argv[1]\<close> and \<^verbatim>\<open>argv[2]\<close> (both present and equal, or both absent) print
  the same and end the same way, from the same world. The program name \<^verbatim>\<open>argv[0]\<close>
  is not read either.
\<close>

theorem main_ignores_later_arguments:
  assumes "take 2 (tl argv) = take 2 (tl argv')"
  shows "main argv w = main argv' w"
  using assms main_first_three [of argv w "[]"] main_first_three [of argv' w "[]"]
  by simp

theorem main_ignores_later_arguments_witness:
  "main [''tatsoryk'', ''localhost'', ''8000'', ''--verbose'', ''9''] \<lparr>stdout = []\<rparr> =
   main [''tatsoryk'', ''localhost'', ''8000''] \<lparr>stdout = []\<rparr>"
  using main_ignores_later_arguments
    [of "[''tatsoryk'', ''localhost'', ''8000'', ''--verbose'', ''9'']"
        "[''tatsoryk'', ''localhost'', ''8000'']" "\<lparr>stdout = []\<rparr>"]
  by simp

end
